theory Spec2Isabelle
  imports Main "HOL-Library.Word"
begin

unbundle bit_operations_syntax

section \<open>Node convergence actions of candictl\<close>

text \<open>
  A shallow embedding of \<^verbatim>\<open>candictl/pkg/kubernetes/actions/converge/node.go\<close>.
  Every function of that file hands a closure to the retry executor; the closure talks to
  the cluster through the Kubernetes client. The client is a collaborator of the file, not
  a part of it, so it enters the model as a record of operations over an abstract cluster
  state \<open>'w\<close>: each operation takes the state and returns its answer with the state after
  the call. Calls to the logger (\<^verbatim>\<open>log.InfoF\<close>, \<^verbatim>\<open>log.InfoLn\<close>) have no influence on
  any returned value and are left out.
\<close>

subsection \<open>Errors\<close>

text \<open>
  A Go \<^verbatim>\<open>error\<close> is either a status error of the API machinery, which carries a reason
  and a message, or an error built by \<^verbatim>\<open>fmt.Errorf(format, operands...)\<close>, kept here as
  the call that built it. A \<^verbatim>\<open>nil\<close> error is \<open>None\<close>.
\<close>

datatype error =
    StatusError string string
  | Errorf string "string list"

definition StatusReasonUnknown :: string where
  "StatusReasonUnknown = ''''"

definition StatusReasonNotFound :: string where
  "StatusReasonNotFound = ''NotFound''"

definition StatusReasonAlreadyExists :: string where
  "StatusReasonAlreadyExists = ''AlreadyExists''"

fun ReasonForError :: "error option \<Rightarrow> string" where
  "ReasonForError (Some (StatusError reason msg)) = reason"
| "ReasonForError (Some (Errorf format operands)) = StatusReasonUnknown"
| "ReasonForError None = StatusReasonUnknown"

definition IsNotFound :: "error option \<Rightarrow> bool" where
  "IsNotFound err = (ReasonForError err = StatusReasonNotFound)"

definition IsAlreadyExists :: "error option \<Rightarrow> bool" where
  "IsAlreadyExists err = (ReasonForError err = StatusReasonAlreadyExists)"


subsection \<open>Formatting and strings\<close>

definition TrimSuffix :: "string \<Rightarrow> string \<Rightarrow> string" where
  "TrimSuffix s suffix =
     (if length suffix \<le> length s \<and> drop (length s - length suffix) s = suffix
      then take (length s - length suffix) s else s)"

definition digit :: "nat \<Rightarrow> char" where
  "digit d = ''0123456789'' ! d"

function fmt_nat :: "nat \<Rightarrow> string" where
  "fmt_nat n = (if n < 10 then [digit n] else fmt_nat (n div 10) @ [digit (n mod 10)])"
  by pat_completeness auto
termination
  by (relation "measure id") auto

declare fmt_nat.simps [simp del]

text \<open>The verb \<^verbatim>\<open>%v\<close> applied to a Go \<^verbatim>\<open>int\<close>: decimal digits, with a sign when negative.\<close>

definition fmt_int :: "int \<Rightarrow> string" where
  "fmt_int i = (if i < 0 then CHR ''-'' # fmt_nat (nat (- i)) else fmt_nat (nat i))"

text \<open>A label of a retry loop: a string literal, or a \<^verbatim>\<open>fmt.Sprintf\<close> call kept as written.\<close>

datatype label =
    Literal string
  | Sprintf string "string list"

subsection \<open>Base64, standard alphabet with padding\<close>

type_synonym bytes = "8 word list"

definition encodeStd :: string where
  "encodeStd = ''ABCDEFGHIJKLMNOPQRSTUVWXYZabcdefghijklmnopqrstuvwxyz0123456789+/''"

definition encode6 :: "32 word \<Rightarrow> char" where
  "encode6 v = encodeStd ! unat (v AND 0x3F)"

fun EncodeToString :: "bytes \<Rightarrow> string" where
  "EncodeToString [] = []"
| "EncodeToString [a] =
     (let val = push_bit 16 (ucast a) :: 32 word
      in [encode6 (drop_bit 18 val), encode6 (drop_bit 12 val), CHR ''='', CHR ''=''])"
| "EncodeToString [a, b] =
     (let val = push_bit 16 (ucast a) OR push_bit 8 (ucast b) :: 32 word
      in [encode6 (drop_bit 18 val), encode6 (drop_bit 12 val), encode6 (drop_bit 6 val),
          CHR ''=''])"
| "EncodeToString (a # b # c # rest) =
     (let val = push_bit 16 (ucast a) OR push_bit 8 (ucast b) OR ucast c :: 32 word
      in [encode6 (drop_bit 18 val), encode6 (drop_bit 12 val), encode6 (drop_bit 6 val),
          encode6 val] @ EncodeToString rest)"

subsection \<open>Objects of the cluster\<close>

record NodeCondition =
  Type :: string
  Status :: string

record Node =
  Name :: string
  Conditions :: "NodeCondition list"

definition NodeReady :: string where
  "NodeReady = ''Ready''"

definition ConditionTrue :: string where
  "ConditionTrue = ''True''"

record Secret =
  Data :: "string \<rightharpoonup> bytes"

text \<open>An unstructured document, \<^verbatim>\<open>map[string]interface{}\<close>, as a tree of JSON values.\<close>

datatype json =
    JNull
  | JBool bool
  | JNumber int
  | JString string
  | JArray "json list"
  | JObject "(string \<times> json) list"

type_synonym object = "(string \<times> json) list"

record Unstructured =
  Object :: object

text \<open>\<^verbatim>\<open>GetName\<close> reads \<^verbatim>\<open>metadata.name\<close> and yields the empty string when it is absent.\<close>

definition GetName :: "Unstructured \<Rightarrow> string" where
  "GetName u =
     (case map_of (Object u) ''metadata'' of
        Some (JObject metadata) \<Rightarrow>
          (case map_of metadata ''name'' of Some (JString name) \<Rightarrow> name | _ \<Rightarrow> '''')
      | _ \<Rightarrow> '''')"

record GroupVersionResource =
  Group :: string
  Version :: string
  Resource :: string

definition nodeGroupResource :: GroupVersionResource where
  "nodeGroupResource =
     \<lparr>Group = ''deckhouse.io'', Version = ''v1alpha1'', Resource = ''nodegroups''\<rparr>"

definition MergePatchType :: string where
  "MergePatchType = ''application/merge-patch+json''"

subsection \<open>The Kubernetes client\<close>

record 'w KubernetesClient =
  CoreV1_Secrets_Get :: "string \<Rightarrow> string \<Rightarrow> 'w \<Rightarrow> (error + Secret) \<times> 'w"
  CoreV1_Nodes_Get :: "string \<Rightarrow> 'w \<Rightarrow> (error + Node) \<times> 'w"
  CoreV1_Nodes_List :: "string \<Rightarrow> 'w \<Rightarrow> (error + Node list) \<times> 'w"
  CoreV1_Nodes_Delete :: "string \<Rightarrow> 'w \<Rightarrow> error option \<times> 'w"
  Dynamic_Create :: "GroupVersionResource \<Rightarrow> Unstructured \<Rightarrow> 'w \<Rightarrow> (error + Unstructured) \<times> 'w"
  Dynamic_Patch ::
    "GroupVersionResource \<Rightarrow> string \<Rightarrow> string \<Rightarrow> bytes \<Rightarrow> 'w \<Rightarrow> (error + Unstructured) \<times> 'w"
  Dynamic_List :: "GroupVersionResource \<Rightarrow> string \<Rightarrow> 'w \<Rightarrow> (error + Unstructured list) \<times> 'w"
  Dynamic_Delete :: "GroupVersionResource \<Rightarrow> string \<Rightarrow> 'w \<Rightarrow> error option \<times> 'w"

subsection \<open>The retry executor\<close>

text \<open>
  Modelled from the spec: the package \<^verbatim>\<open>candictl/pkg/util/retry\<close> with \<^verbatim>\<open>StartLoop\<close> and
  \<^verbatim>\<open>StartSilentLoop\<close> is missing from the sources. The spec gives the contract
  \<^verbatim>\<open>run(label, policy, attempt)\<close>: the attempt is invoked up to \<open>maxAttempts\<close> times, with a
  sleep of \<open>intervalSeconds\<close> between attempts (none after the final attempt or after a
  success); the value of the first success is returned; when every attempt fails, the
  error of the last attempt is returned. The spec requires \<open>maxAttempts \<ge> 1\<close>; the loop
  below makes its first attempt before it looks at the budget, so a budget of zero behaves
  like a budget of one. The execution records how often the attempt was invoked and the
  sleeps, in order. The label and \<open>silent\<close> feed the progress reporter only.
\<close>

record AttemptPolicy =
  maxAttempts :: nat
  intervalSeconds :: nat
  silent :: bool

record ('r, 's) Execution =
  outcome :: 'r
  invocations :: nat
  sleeps :: "nat list"
  final :: 's

fun run_loop ::
  "nat \<Rightarrow> nat \<Rightarrow> ('s \<Rightarrow> ('e + 'a) \<times> 's) \<Rightarrow> nat \<Rightarrow> nat list \<Rightarrow> 's \<Rightarrow> ('e + 'a, 's) Execution"
where
  "run_loop 0 interval attempt done slept s =
     (case attempt s of (r, s') \<Rightarrow>
        \<lparr>outcome = r, invocations = Suc done, sleeps = slept, final = s'\<rparr>)"
| "run_loop (Suc left) interval attempt done slept s =
     (case attempt s of
        (Inr v, s') \<Rightarrow> \<lparr>outcome = Inr v, invocations = Suc done, sleeps = slept, final = s'\<rparr>
      | (Inl e, s') \<Rightarrow> run_loop left interval attempt (Suc done) (slept @ [interval]) s')"

definition run ::
  "label \<Rightarrow> AttemptPolicy \<Rightarrow> ('s \<Rightarrow> ('e + 'a) \<times> 's) \<Rightarrow> 's \<Rightarrow> ('e + 'a, 's) Execution"
where
  "run name policy attempt s =
     run_loop (maxAttempts policy - 1) (intervalSeconds policy) attempt 0 [] s"

text \<open>
  Modelled from the spec: \<^verbatim>\<open>StartLoop(name, attemptsQuantity, waitSeconds, task)\<close> runs a
  task of type \<^verbatim>\<open>func() error\<close> under the policy made of its two numbers and returns
  the task's error or \<^verbatim>\<open>nil\<close>; \<^verbatim>\<open>StartSilentLoop\<close> is the same with \<open>silent\<close> set.
\<close>

definition as_result :: "('s \<Rightarrow> error option \<times> 's) \<Rightarrow> 's \<Rightarrow> (error + unit) \<times> 's" where
  "as_result task s =
     (case task s of (None, s') \<Rightarrow> (Inr (), s') | (Some err, s') \<Rightarrow> (Inl err, s'))"

definition as_error :: "(error + unit, 's) Execution \<Rightarrow> error option \<times> 's" where
  "as_error ex = (case outcome ex of Inl err \<Rightarrow> (Some err, final ex) | Inr u \<Rightarrow> (None, final ex))"

definition StartLoop ::
  "label \<Rightarrow> nat \<Rightarrow> nat \<Rightarrow> ('s \<Rightarrow> error option \<times> 's) \<Rightarrow> 's \<Rightarrow> error option \<times> 's"
where
  "StartLoop name attemptsQuantity waitSeconds task s =
     as_error (run name
       \<lparr>maxAttempts = attemptsQuantity, intervalSeconds = waitSeconds, silent = False\<rparr>
       (as_result task) s)"

definition StartSilentLoop ::
  "label \<Rightarrow> nat \<Rightarrow> nat \<Rightarrow> ('s \<Rightarrow> error option \<times> 's) \<Rightarrow> 's \<Rightarrow> error option \<times> 's"
where
  "StartSilentLoop name attemptsQuantity waitSeconds task s =
     as_error (run name
       \<lparr>maxAttempts = attemptsQuantity, intervalSeconds = waitSeconds, silent = True\<rparr>
       (as_result task) s)"

text \<open>
  The state after \<open>i\<close> invocations of an attempt, and what the attempt returns when it is
  invoked after \<open>i\<close> earlier invocations (so invocation number \<open>i + 1\<close>).
\<close>

fun state_after :: "('s \<Rightarrow> 'r \<times> 's) \<Rightarrow> nat \<Rightarrow> 's \<Rightarrow> 's" where
  "state_after attempt 0 s = s"
| "state_after attempt (Suc i) s = state_after attempt i (snd (attempt s))"

definition invocation :: "('s \<Rightarrow> 'r \<times> 's) \<Rightarrow> nat \<Rightarrow> 's \<Rightarrow> 'r" where
  "invocation attempt i s = fst (attempt (state_after attempt i s))"

subsection \<open>GetCloudConfig\<close>

text \<open>
  The closure writes the captured variable \<^verbatim>\<open>cloudData\<close>, so its state is the pair of
  that variable and the cluster. A key missing from \<^verbatim>\<open>secret.Data\<close> reads as the nil
  slice. The goroutine that prints the deckhouse log while the loop runs discards its
  results and is not modelled, nor is the \<^verbatim>\<open>log.Process\<close> frame.
\<close>

definition GetCloudConfig_attempt ::
  "'w KubernetesClient \<Rightarrow> string \<Rightarrow> string \<times> 'w \<Rightarrow> error option \<times> (string \<times> 'w)"
where
  "GetCloudConfig_attempt kubeCl nodeGroupName = (\<lambda>(cloudData, w).
     case CoreV1_Secrets_Get kubeCl ''d8-cloud-instance-manager''
            (''manual-bootstrap-for-'' @ nodeGroupName) w of
       (Inl err, w') \<Rightarrow> (Some err, (cloudData, w'))
     | (Inr secret, w') \<Rightarrow>
         (None,
          (EncodeToString (case Data secret ''cloud-config'' of None \<Rightarrow> [] | Some b \<Rightarrow> b), w')))"

definition GetCloudConfig ::
  "'w KubernetesClient \<Rightarrow> string \<Rightarrow> 'w \<Rightarrow> (string \<times> error option) \<times> 'w"
where
  "GetCloudConfig kubeCl nodeGroupName w =
     (case StartSilentLoop
             (Sprintf (''Waiting for %s cloud config'' @ [CHR 0xEF, CHR 0xB8, CHR 0x8F])
                [nodeGroupName])
             45 5 (GetCloudConfig_attempt kubeCl nodeGroupName) ([], w) of
        (err, (cloudData, w')) \<Rightarrow> ((cloudData, err), w'))"

subsection \<open>CreateNodeGroup\<close>

text \<open>
  The closure of lines 69 to 93. \<^verbatim>\<open>doc.MarshalJSON\<close> belongs to the API machinery; it is
  the parameter \<open>MarshalJSON\<close>. The local \<^verbatim>\<open>resourceSchema\<close> has the same three fields as
  \<^verbatim>\<open>nodeGroupResource\<close>. The last line of the closure is \<^verbatim>\<open>return nil\<close>; it is reached
  after a successful patch and also when the create error is not "already exists".
\<close>

definition CreateNodeGroup_attempt ::
  "'w KubernetesClient \<Rightarrow> (Unstructured \<Rightarrow> error + bytes) \<Rightarrow> Unstructured \<Rightarrow> 'w
     \<Rightarrow> error option \<times> 'w"
where
  "CreateNodeGroup_attempt kubeCl MarshalJSON doc w =
     (case Dynamic_Create kubeCl nodeGroupResource doc w of
        (Inr res, w1) \<Rightarrow> (None, w1)
      | (Inl err, w1) \<Rightarrow>
          if IsAlreadyExists (Some err) then
            (case MarshalJSON doc of
               Inl err' \<Rightarrow> (Some err', w1)
             | Inr content \<Rightarrow>
                 (case Dynamic_Patch kubeCl nodeGroupResource (GetName doc) MergePatchType
                         content w1 of
                    (Inl err', w2) \<Rightarrow> (Some err', w2)
                  | (Inr res, w2) \<Rightarrow> (None, w2)))
          else (None, w1))"

definition CreateNodeGroup ::
  "'w KubernetesClient \<Rightarrow> (Unstructured \<Rightarrow> error + bytes) \<Rightarrow> string \<Rightarrow> object \<Rightarrow> 'w
     \<Rightarrow> error option \<times> 'w"
where
  "CreateNodeGroup kubeCl MarshalJSON nodeGroupName data =
     StartLoop (Sprintf ''Create NodeGroup %q'' [nodeGroupName]) 45 15
       (CreateNodeGroup_attempt kubeCl MarshalJSON \<lparr>Object = data\<rparr>)"

subsection \<open>WaitForSingleNodeBecomeReady\<close>

text \<open>
  The loop of lines 103 to 109 over the conditions of the fetched node: it returns at the
  first condition of type \<^verbatim>\<open>NodeReady\<close> whose status is \<^verbatim>\<open>ConditionTrue\<close>.
\<close>

fun ready_condition :: "NodeCondition list \<Rightarrow> bool" where
  "ready_condition [] = False"
| "ready_condition (c # cs) =
     (if Type c = NodeReady then
        (if Status c = ConditionTrue then True else ready_condition cs)
      else ready_condition cs)"

definition WaitForSingleNodeBecomeReady_attempt ::
  "'w KubernetesClient \<Rightarrow> string \<Rightarrow> 'w \<Rightarrow> error option \<times> 'w"
where
  "WaitForSingleNodeBecomeReady_attempt kubeCl nodeName w =
     (case CoreV1_Nodes_Get kubeCl nodeName w of
        (Inl err, w') \<Rightarrow> (Some err, w')
      | (Inr node, w') \<Rightarrow>
          (if ready_condition (Conditions node) then None
           else Some (Errorf ''node %q is not Ready yet'' [nodeName]), w'))"

definition WaitForSingleNodeBecomeReady ::
  "'w KubernetesClient \<Rightarrow> string \<Rightarrow> 'w \<Rightarrow> error option \<times> 'w"
where
  "WaitForSingleNodeBecomeReady kubeCl nodeName =
     StartLoop (Sprintf ''Waiting for  Node %s to become Ready'' [nodeName]) 100 20
       (WaitForSingleNodeBecomeReady_attempt kubeCl nodeName)"

subsection \<open>WaitForNodesBecomeReady and WaitForNodesListBecomeReady\<close>

text \<open>
  Both closures run the same three steps on the node items they obtained: fill the set
  \<^verbatim>\<open>readyNodes\<close> (a \<^verbatim>\<open>map[string]struct{}\<close>, keyed by node name), build the message, and
  compare \<^verbatim>\<open>len(readyNodes)\<close> with the desired number (lines 122 to 148 and 165 to 191).
  \<open>mark_nodes\<close> and \<open>mark_conditions\<close> are the two nested loops that fill the set,
  \<open>node_lines\<close> is the loop that appends one line per node to the message, and
  \<open>readiness\<close> is the final comparison with its two returns.
\<close>

fun mark_conditions :: "string \<Rightarrow> NodeCondition list \<Rightarrow> string set \<Rightarrow> string set" where
  "mark_conditions name [] ready = ready"
| "mark_conditions name (c # cs) ready =
     mark_conditions name cs
       (if Type c = NodeReady then
          (if Status c = ConditionTrue then insert name ready else ready)
        else ready)"

fun mark_nodes :: "Node list \<Rightarrow> string set \<Rightarrow> string set" where
  "mark_nodes [] ready = ready"
| "mark_nodes (node # nodes) ready =
     mark_nodes nodes (mark_conditions (Name node) (Conditions node) ready)"

definition readyNodes :: "Node list \<Rightarrow> string set" where
  "readyNodes items = mark_nodes items {}"

fun node_lines :: "Node list \<Rightarrow> string set \<Rightarrow> string \<Rightarrow> string" where
  "node_lines [] ready message = message"
| "node_lines (node # nodes) ready message =
     node_lines nodes ready
       (message @ ''* '' @ Name node @ '' | ''
          @ (if Name node \<in> ready then ''Ready'' else ''NotReady'') @ ''\<newline>'')"

definition message :: "Node list \<Rightarrow> int \<Rightarrow> string" where
  "message items desiredReadyNodes =
     node_lines items (readyNodes items)
       (''Nodes Ready '' @ fmt_int (int (card (readyNodes items))) @ '' of ''
          @ fmt_int desiredReadyNodes @ ''\<newline>'')"

definition readiness :: "Node list \<Rightarrow> int \<Rightarrow> error option" where
  "readiness items desiredReadyNodes =
     (if int (card (readyNodes items)) \<ge> desiredReadyNodes then None
      else Some (Errorf (TrimSuffix (message items desiredReadyNodes) ''\<newline>'') []))"

definition WaitForNodesBecomeReady_attempt ::
  "'w KubernetesClient \<Rightarrow> string \<Rightarrow> int \<Rightarrow> 'w \<Rightarrow> error option \<times> 'w"
where
  "WaitForNodesBecomeReady_attempt kubeCl nodeGroupName desiredReadyNodes w =
     (case CoreV1_Nodes_List kubeCl (''node.deckhouse.io/group='' @ nodeGroupName) w of
        (Inl err, w') \<Rightarrow> (Some err, w')
      | (Inr items, w') \<Rightarrow> (readiness items desiredReadyNodes, w'))"

definition WaitForNodesBecomeReady ::
  "'w KubernetesClient \<Rightarrow> string \<Rightarrow> int \<Rightarrow> 'w \<Rightarrow> error option \<times> 'w"
where
  "WaitForNodesBecomeReady kubeCl nodeGroupName desiredReadyNodes =
     StartLoop (Sprintf ''Waiting for NodeGroup %s to become Ready'' [nodeGroupName]) 100 20
       (WaitForNodesBecomeReady_attempt kubeCl nodeGroupName desiredReadyNodes)"

text \<open>
  The loop of lines 157 to 163: one \<^verbatim>\<open>Get\<close> per name, in the order of the list; the first
  error is returned at once, a fetched node is appended to \<^verbatim>\<open>nodesList.Items\<close>.
\<close>

fun fetch_nodes ::
  "'w KubernetesClient \<Rightarrow> string list \<Rightarrow> Node list \<Rightarrow> 'w \<Rightarrow> (error + Node list) \<times> 'w"
where
  "fetch_nodes kubeCl [] items w = (Inr items, w)"
| "fetch_nodes kubeCl (nodeName # rest) items w =
     (case CoreV1_Nodes_Get kubeCl nodeName w of
        (Inl err, w') \<Rightarrow> (Inl err, w')
      | (Inr node, w') \<Rightarrow> fetch_nodes kubeCl rest (items @ [node]) w')"

definition WaitForNodesListBecomeReady_attempt ::
  "'w KubernetesClient \<Rightarrow> string list \<Rightarrow> 'w \<Rightarrow> error option \<times> 'w"
where
  "WaitForNodesListBecomeReady_attempt kubeCl nodes w =
     (case fetch_nodes kubeCl nodes [] w of
        (Inl err, w') \<Rightarrow> (Some err, w')
      | (Inr items, w') \<Rightarrow> (readiness items (int (length nodes)), w'))"

definition WaitForNodesListBecomeReady ::
  "'w KubernetesClient \<Rightarrow> string list \<Rightarrow> 'w \<Rightarrow> error option \<times> 'w"
where
  "WaitForNodesListBecomeReady kubeCl nodes =
     StartLoop (Literal ''Waiting for nodes to become Ready'') 100 20
       (WaitForNodesListBecomeReady_attempt kubeCl nodes)"

subsection \<open>GetNodeGroupTemplates\<close>

text \<open>
  The closure writes the captured map \<^verbatim>\<open>nodeTemplates\<close>. A group whose \<^verbatim>\<open>spec\<close> or whose
  \<^verbatim>\<open>spec.nodeTemplate\<close> is not a document is entered with the nil template, \<open>None\<close>.
\<close>

definition nodeTemplate_of :: "Unstructured \<Rightarrow> object option" where
  "nodeTemplate_of grp =
     (case map_of (Object grp) ''spec'' of
        Some (JObject spec) \<Rightarrow>
          (case map_of spec ''nodeTemplate'' of Some (JObject t) \<Rightarrow> Some t | _ \<Rightarrow> None)
      | _ \<Rightarrow> None)"

fun collect_templates ::
  "Unstructured list \<Rightarrow> (string \<rightharpoonup> object option) \<Rightarrow> (string \<rightharpoonup> object option)"
where
  "collect_templates [] nodeTemplates = nodeTemplates"
| "collect_templates (grp # groups) nodeTemplates =
     collect_templates groups (nodeTemplates(GetName grp \<mapsto> nodeTemplate_of grp))"

definition GetNodeGroupTemplates_attempt ::
  "'w KubernetesClient \<Rightarrow> (string \<rightharpoonup> object option) \<times> 'w
     \<Rightarrow> error option \<times> ((string \<rightharpoonup> object option) \<times> 'w)"
where
  "GetNodeGroupTemplates_attempt kubeCl = (\<lambda>(nodeTemplates, w).
     case Dynamic_List kubeCl nodeGroupResource [] w of
       (Inl err, w') \<Rightarrow> (Some err, (nodeTemplates, w'))
     | (Inr items, w') \<Rightarrow> (None, (collect_templates items nodeTemplates, w')))"

definition GetNodeGroupTemplates ::
  "'w KubernetesClient \<Rightarrow> 'w \<Rightarrow> ((string \<rightharpoonup> object option) \<times> error option) \<times> 'w"
where
  "GetNodeGroupTemplates kubeCl w =
     (case StartLoop (Literal ''Get NodeGroups node template settings'') 10 5
             (GetNodeGroupTemplates_attempt kubeCl) (Map.empty, w) of
        (err, (nodeTemplates, w')) \<Rightarrow> ((nodeTemplates, err), w'))"

subsection \<open>DeleteNode and DeleteNodeGroup\<close>

text \<open>The closures of lines 219 to 226 and 230 to 237.\<close>

definition DeleteNode_attempt :: "'w KubernetesClient \<Rightarrow> string \<Rightarrow> 'w \<Rightarrow> error option \<times> 'w" where
  "DeleteNode_attempt kubeCl nodeName w =
     (case CoreV1_Nodes_Delete kubeCl nodeName w of
        (err, w') \<Rightarrow> (if IsNotFound err then None else err, w'))"

definition DeleteNode :: "'w KubernetesClient \<Rightarrow> string \<Rightarrow> 'w \<Rightarrow> error option \<times> 'w" where
  "DeleteNode kubeCl nodeName =
     StartLoop (Sprintf ''Delete Node %s'' [nodeName]) 45 10 (DeleteNode_attempt kubeCl nodeName)"

definition DeleteNodeGroup_attempt ::
  "'w KubernetesClient \<Rightarrow> string \<Rightarrow> 'w \<Rightarrow> error option \<times> 'w"
where
  "DeleteNodeGroup_attempt kubeCl nodeGroupName w =
     (case Dynamic_Delete kubeCl nodeGroupResource nodeGroupName w of
        (err, w') \<Rightarrow> (if IsNotFound err then None else err, w'))"

definition DeleteNodeGroup :: "'w KubernetesClient \<Rightarrow> string \<Rightarrow> 'w \<Rightarrow> error option \<times> 'w" where
  "DeleteNodeGroup kubeCl nodeGroupName =
     StartLoop (Sprintf ''Delete NodeGroup %s'' [nodeGroupName]) 45 10
       (DeleteNodeGroup_attempt kubeCl nodeGroupName)"

section \<open>A sample cluster\<close>

text \<open>
  A small client used to evaluate the closures on concrete inputs. Its cluster state is
  the number of API calls made so far.
\<close>

definition demo_ready :: "NodeCondition list" where
  "demo_ready = [\<lparr>Type = ''MemoryPressure'', Status = ''False''\<rparr>, \<lparr>Type = ''Ready'', Status = ''True''\<rparr>]"

definition demo_not_ready :: "NodeCondition list" where
  "demo_not_ready = [\<lparr>Type = ''Ready'', Status = ''False''\<rparr>]"

definition demo_nodes :: "(string \<times> NodeCondition list) list" where
  "demo_nodes = [(''a'', demo_ready), (''b'', demo_not_ready), (''c'', demo_ready), (''n'', demo_ready)]"

definition demo_item :: "string \<times> NodeCondition list \<Rightarrow> Node" where
  "demo_item p = \<lparr>Name = fst p, Conditions = snd p\<rparr>"

definition demo_doc :: "string \<Rightarrow> Unstructured" where
  "demo_doc name = \<lparr>Object = [(''kind'', JString ''NodeGroup''),
      (''metadata'', JObject [(''name'', JString name)])]\<rparr>"

definition demo :: "nat KubernetesClient" where
  "demo = \<lparr>
     CoreV1_Secrets_Get = (\<lambda>namespace name calls.
       (if name = ''manual-bootstrap-for-worker'' then Inr \<lparr>Data = Map.empty\<rparr>
        else if name = ''manual-bootstrap-for-master''
          then Inr \<lparr>Data = [''cloud-config'' \<mapsto> [0x4D, 0x61]]\<rparr>
        else Inl (StatusError ''NotFound'' ''secret not found''), Suc calls)),
     CoreV1_Nodes_Get = (\<lambda>name calls.
       (case map_of demo_nodes name of
          None \<Rightarrow> Inl (StatusError ''NotFound'' ''node not found'')
        | Some conditions \<Rightarrow> Inr \<lparr>Name = name, Conditions = conditions\<rparr>, Suc calls)),
     CoreV1_Nodes_List = (\<lambda>selector calls.
       (if selector = ''node.deckhouse.io/group=worker''
        then Inr (map demo_item (take 3 demo_nodes))
        else Inl (Errorf ''connection refused'' []), Suc calls)),
     CoreV1_Nodes_Delete = (\<lambda>name calls.
       (if name = ''gone'' then Some (StatusError ''NotFound'' ''node not found'')
        else if name = ''locked'' then Some (StatusError ''Forbidden'' ''nodes is forbidden'')
        else None, Suc calls)),
     Dynamic_Create = (\<lambda>resource doc calls.
       (if GetName doc = ''ng-1'' then Inl (StatusError ''AlreadyExists'' ''nodegroups ng-1 already exists'')
        else if GetName doc = ''ng-2'' then Inl (StatusError ''Forbidden'' ''nodegroups is forbidden'')
        else Inr doc, Suc calls)),
     Dynamic_Patch = (\<lambda>resource name patchType content calls.
       (if name = ''ng-1'' \<and> patchType = ''application/merge-patch+json''
        then Inr (demo_doc name) else Inl (StatusError ''NotFound'' ''nodegroups not found''),
        Suc calls)),
     Dynamic_List = (\<lambda>resource selector calls. (Inr [demo_doc ''ng-1''], Suc calls)),
     Dynamic_Delete = (\<lambda>resource name calls.
       (if name = ''gone'' then Some (StatusError ''NotFound'' ''nodegroups not found'')
        else if name = ''locked'' then Some (StatusError ''Forbidden'' ''nodegroups is forbidden'')
        else None, Suc calls))\<rparr>"

definition demo_marshal :: "Unstructured \<Rightarrow> error + bytes" where
  "demo_marshal doc = Inr [0x7B, 0x7D]"

definition demo_items :: "Node list" where
  "demo_items = map demo_item (take 3 demo_nodes)"

definition demo_failing :: "nat \<Rightarrow> (nat + unit) \<times> nat" where
  "demo_failing n = (Inl (Suc n), Suc n)"

definition demo_third :: "nat \<Rightarrow> (nat + string) \<times> nat" where
  "demo_third n = (if n < 2 then Inl (Suc n) else Inr ''done'', Suc n)"

section \<open>Properties\<close>

subsection \<open>Recognising status errors\<close>

lemma IsNotFound_simps:
  "IsNotFound None = False"
  "IsNotFound (Some (StatusError reason msg)) = (reason = ''NotFound'')"
  "IsNotFound (Some (Errorf format operands)) = False"
  by (simp_all add: IsNotFound_def StatusReasonNotFound_def StatusReasonUnknown_def)

lemma IsAlreadyExists_simps:
  "IsAlreadyExists None = False"
  "IsAlreadyExists (Some (StatusError reason msg)) = (reason = ''AlreadyExists'')"
  "IsAlreadyExists (Some (Errorf format operands)) = False"
  by (simp_all add: IsAlreadyExists_def StatusReasonAlreadyExists_def StatusReasonUnknown_def)

text \<open>
  C2. One delete attempt, for a node and for a node group: when the backend reports "not
  found" the attempt returns success; every other error the backend reports is returned as
  the failure of the attempt; a delete that reports no error succeeds.
\<close>

theorem delete_not_found_is_success:
  "(CoreV1_Nodes_Delete kubeCl a wa = (Some (StatusError StatusReasonNotFound ma), wa')
      \<longrightarrow> DeleteNode_attempt kubeCl a wa = (None, wa'))
   \<and> (CoreV1_Nodes_Delete kubeCl b wb = (Some eb, wb') \<and> \<not> IsNotFound (Some eb)
      \<longrightarrow> DeleteNode_attempt kubeCl b wb = (Some eb, wb'))
   \<and> (CoreV1_Nodes_Delete kubeCl c wc = (None, wc')
      \<longrightarrow> DeleteNode_attempt kubeCl c wc = (None, wc'))
   \<and> (Dynamic_Delete kubeCl nodeGroupResource d wd = (Some (StatusError StatusReasonNotFound md), wd')
      \<longrightarrow> DeleteNodeGroup_attempt kubeCl d wd = (None, wd'))
   \<and> (Dynamic_Delete kubeCl nodeGroupResource e we = (Some ee, we') \<and> \<not> IsNotFound (Some ee)
      \<longrightarrow> DeleteNodeGroup_attempt kubeCl e we = (Some ee, we'))
   \<and> (Dynamic_Delete kubeCl nodeGroupResource k wk = (None, wk')
      \<longrightarrow> DeleteNodeGroup_attempt kubeCl k wk = (None, wk'))"
  by (simp add: DeleteNode_attempt_def DeleteNodeGroup_attempt_def IsNotFound_simps
      StatusReasonNotFound_def)

theorem delete_not_found_is_success_witness:
  "CoreV1_Nodes_Delete demo ''gone'' 0 = (Some (StatusError StatusReasonNotFound ''node not found''), 1)
   \<and> DeleteNode_attempt demo ''gone'' 0 = (None, 1)
   \<and> CoreV1_Nodes_Delete demo ''locked'' 0 = (Some (StatusError ''Forbidden'' ''nodes is forbidden''), 1)
   \<and> \<not> IsNotFound (Some (StatusError ''Forbidden'' ''nodes is forbidden''))
   \<and> DeleteNode_attempt demo ''locked'' 0 = (Some (StatusError ''Forbidden'' ''nodes is forbidden''), 1)
   \<and> CoreV1_Nodes_Delete demo ''a'' 0 = (None, 1)
   \<and> DeleteNode_attempt demo ''a'' 0 = (None, 1)
   \<and> Dynamic_Delete demo nodeGroupResource ''gone'' 0 = (Some (StatusError StatusReasonNotFound ''nodegroups not found''), 1)
   \<and> DeleteNodeGroup_attempt demo ''gone'' 0 = (None, 1)
   \<and> Dynamic_Delete demo nodeGroupResource ''locked'' 0 = (Some (StatusError ''Forbidden'' ''nodegroups is forbidden''), 1)
   \<and> DeleteNodeGroup_attempt demo ''locked'' 0 = (Some (StatusError ''Forbidden'' ''nodegroups is forbidden''), 1)
   \<and> Dynamic_Delete demo nodeGroupResource ''ng-1'' 0 = (None, 1)
   \<and> DeleteNodeGroup_attempt demo ''ng-1'' 0 = (None, 1)"
  using delete_not_found_is_success [where kubeCl = demo
      and a = "''gone''" and wa = 0 and ma = "''node not found''" and wa' = 1
      and b = "''locked''" and wb = 0 and eb = "StatusError ''Forbidden'' ''nodes is forbidden''"
      and wb' = 1
      and c = "''a''" and wc = 0 and wc' = 1
      and d = "''gone''" and wd = 0 and md = "''nodegroups not found''" and wd' = 1
      and e = "''locked''" and we = 0
      and ee = "StatusError ''Forbidden'' ''nodegroups is forbidden''" and we' = 1
      and k = "''ng-1''" and wk = 0 and wk' = 1]
  by (simp add: demo_def IsNotFound_simps StatusReasonNotFound_def)

subsection \<open>The node-group upsert\<close>

text \<open>
  What one attempt returns, branch by branch: success after a successful create; after
  "already exists", the failure of the serialization or of the merge patch of the object
  named by the declaration, and success when both succeed; and success again after any
  other create error, which is dropped.
\<close>

lemma CreateNodeGroup_attempt_branches:
  "(Dynamic_Create kubeCl nodeGroupResource doc w = (Inr res, w1)
      \<longrightarrow> CreateNodeGroup_attempt kubeCl MarshalJSON doc w = (None, w1))
   \<and> (Dynamic_Create kubeCl nodeGroupResource doc w = (Inl err, w1) \<and> IsAlreadyExists (Some err)
      \<longrightarrow> CreateNodeGroup_attempt kubeCl MarshalJSON doc w =
          (case MarshalJSON doc of
             Inl err' \<Rightarrow> (Some err', w1)
           | Inr content \<Rightarrow>
               (case Dynamic_Patch kubeCl nodeGroupResource (GetName doc) MergePatchType content w1 of
                  (Inl err', w2) \<Rightarrow> (Some err', w2)
                | (Inr patched, w2) \<Rightarrow> (None, w2))))
   \<and> (Dynamic_Create kubeCl nodeGroupResource doc w = (Inl err, w1) \<and> \<not> IsAlreadyExists (Some err)
      \<longrightarrow> CreateNodeGroup_attempt kubeCl MarshalJSON doc w = (None, w1))"
  by (simp add: CreateNodeGroup_attempt_def)

text \<open>
  C1. The specification has every create error other than "already exists" fail the
  attempt. The closure ends in \<^verbatim>\<open>return nil\<close> after the "already exists" branch, so such
  an error is dropped: with a backend that refuses the create of the declaration ng-2 as
  forbidden, the attempt returns success.
\<close>

theorem create_other_error_attempt_succeeds:
  "Dynamic_Create demo nodeGroupResource (demo_doc ''ng-2'') 0
     = (Inl (StatusError ''Forbidden'' ''nodegroups is forbidden''), 1)
   \<and> \<not> IsAlreadyExists (Some (StatusError ''Forbidden'' ''nodegroups is forbidden''))
   \<and> CreateNodeGroup_attempt demo demo_marshal (demo_doc ''ng-2'') 0 = (None, 1)"
  by (simp add: demo_def demo_doc_def GetName_def CreateNodeGroup_attempt_def IsAlreadyExists_simps)

subsection \<open>The readiness aggregation\<close>

lemma mark_conditions_eq:
  "mark_conditions name cs ready =
     (if \<exists>c \<in> set cs. Type c = ''Ready'' \<and> Status c = ''True'' then insert name ready else ready)"
  by (induction cs arbitrary: ready) (auto simp: NodeReady_def ConditionTrue_def)

lemma mark_nodes_eq:
  "mark_nodes items ready =
     ready \<union> Name ` {node \<in> set items. \<exists>c \<in> set (Conditions node). Type c = ''Ready'' \<and> Status c = ''True''}"
  by (induction items arbitrary: ready) (auto simp: mark_conditions_eq)

lemma readyNodes_eq:
  "readyNodes items =
     Name ` {node \<in> set items. \<exists>c \<in> set (Conditions node). Type c = ''Ready'' \<and> Status c = ''True''}"
  by (simp add: readyNodes_def mark_nodes_eq)

lemma readiness_None_iff:
  "(readiness items desired = None) = (desired \<le> int (card (readyNodes items)))"
  by (simp add: readiness_def)

text \<open>
  C3. Whatever nodes the list call returned and whatever number is desired, the attempt of
  the whole-group wait succeeds exactly when the desired number is at most the ready
  count: the number of distinct names of observed nodes whose condition list holds a
  condition of type "Ready" with status "True". A node without such a condition adds
  nothing to the count.
\<close>

theorem group_wait_satisfied_iff_ready_count:
  "CoreV1_Nodes_List kubeCl (''node.deckhouse.io/group='' @ nodeGroupName) w = (Inr items, w')
   \<longrightarrow> (WaitForNodesBecomeReady_attempt kubeCl nodeGroupName desired w = (None, w'))
        = (desired \<le> int (card (Name ` {node \<in> set items.
             \<exists>c \<in> set (Conditions node). Type c = ''Ready'' \<and> Status c = ''True''})))"
  by (simp add: WaitForNodesBecomeReady_attempt_def readiness_None_iff readyNodes_eq)

lemma demo_items_eq:
  "demo_items = [\<lparr>Name = ''a'', Conditions = demo_ready\<rparr>, \<lparr>Name = ''b'', Conditions = demo_not_ready\<rparr>,
     \<lparr>Name = ''c'', Conditions = demo_ready\<rparr>]"
  by (simp add: demo_items_def demo_nodes_def demo_item_def)

lemma readyNodes_demo_items: "readyNodes demo_items = {''a'', ''c''}"
  by (auto simp add: demo_items_eq readyNodes_def demo_ready_def demo_not_ready_def
      NodeReady_def ConditionTrue_def)

lemma card_readyNodes_demo_items: "card (readyNodes demo_items) = 2"
  by (simp add: readyNodes_demo_items)

lemma fmt_int_2: "fmt_int 2 = ''2''"
  by (simp add: fmt_int_def fmt_nat.simps digit_def)

lemma message_demo_items:
  "message demo_items 2 = ''Nodes Ready 2 of 2\<newline>* a | Ready\<newline>* b | NotReady\<newline>* c | Ready\<newline>''"
  by (simp add: message_def card_readyNodes_demo_items fmt_int_2 readyNodes_demo_items)
     (simp add: demo_items_eq)


theorem group_wait_satisfied_iff_ready_count_witness:
  "CoreV1_Nodes_List demo (''node.deckhouse.io/group='' @ ''worker'') 0 = (Inr demo_items, 1)
   \<and> (WaitForNodesBecomeReady_attempt demo ''worker'' 2 0 = (None, 1))
       = (2 \<le> int (card (Name ` {node \<in> set demo_items.
            \<exists>c \<in> set (Conditions node). Type c = ''Ready'' \<and> Status c = ''True''})))
   \<and> WaitForNodesBecomeReady_attempt demo ''worker'' 2 0 = (None, 1)
   \<and> WaitForNodesBecomeReady_attempt demo ''worker'' 3 0 \<noteq> (None, 1)"
proof -
  have listed:
    "CoreV1_Nodes_List demo (''node.deckhouse.io/group='' @ ''worker'') 0 = (Inr demo_items, 1)"
    by (simp add: demo_def demo_items_def)
  have two: "WaitForNodesBecomeReady_attempt demo ''worker'' 2 0 = (None, 1)"
    using listed
    by (simp add: WaitForNodesBecomeReady_attempt_def readiness_def card_readyNodes_demo_items)
  have three: "WaitForNodesBecomeReady_attempt demo ''worker'' 3 0 \<noteq> (None, 1)"
    using listed
    by (simp add: WaitForNodesBecomeReady_attempt_def readiness_def card_readyNodes_demo_items)
  from group_wait_satisfied_iff_ready_count [of demo "''worker''" 0 demo_items 1 2] listed
  have "(WaitForNodesBecomeReady_attempt demo ''worker'' 2 0 = (None, 1))
       = (2 \<le> int (card (Name ` {node \<in> set demo_items.
            \<exists>c \<in> set (Conditions node). Type c = ''Ready'' \<and> Status c = ''True''})))"
    by (rule mp)
  with listed two three show ?thesis
    by blast
qed

lemma node_lines_eq:
  "node_lines items ready msg =
     msg @ concat (map (\<lambda>node. ''* '' @ Name node @ '' | ''
       @ (if Name node \<in> ready then ''Ready'' else ''NotReady'') @ ''\<newline>'') items)"
  by (induction items arbitrary: msg) simp_all

text \<open>
  C4. The message is the line "Nodes Ready <ready count> of <desired>" followed by one
  line for each observed node, in the order of the input, labelled Ready or NotReady. For
  the nodes a (ready), b (not ready), c (ready) and a desired count of 2 the aggregation is
  satisfied and the message starts with "Nodes Ready 2 of 2".
\<close>

theorem message_is_header_then_lines_in_order:
  "message items desired =
     ''Nodes Ready '' @ fmt_int (int (card (readyNodes items))) @ '' of '' @ fmt_int desired
       @ ''\<newline>''
       @ concat (map (\<lambda>node. ''* '' @ Name node @ '' | ''
           @ (if Name node \<in> readyNodes items then ''Ready'' else ''NotReady'') @ ''\<newline>'') items)
   \<and> readiness demo_items 2 = None
   \<and> take 18 (message demo_items 2) = ''Nodes Ready 2 of 2''
   \<and> message demo_items 2
       = ''Nodes Ready 2 of 2\<newline>* a | Ready\<newline>* b | NotReady\<newline>* c | Ready\<newline>''"
proof -
  have "readiness demo_items 2 = None"
    by (simp add: readiness_def card_readyNodes_demo_items)
  moreover have "take 18 (message demo_items 2) = ''Nodes Ready 2 of 2''"
    by (simp add: message_demo_items)
  ultimately show ?thesis
    by (simp add: message_def node_lines_eq message_demo_items [symmetric])
qed

subsection \<open>Waiting for a single node\<close>

lemma ready_condition_eq:
  "ready_condition cs = (\<exists>c \<in> set cs. Type c = ''Ready'' \<and> Status c = ''True'')"
  by (induction cs) (auto simp: NodeReady_def ConditionTrue_def)

text \<open>
  C5. The single-node wait runs under the policy of 100 attempts, 20 seconds apart. An
  attempt fetches the named node. A failed fetch, "not found" included, is the failure of
  the attempt; a fetched node succeeds the attempt exactly when its conditions hold a
  "Ready" condition with status "True", and fails it with the not-Ready error otherwise.
\<close>

theorem single_node_wait_attempt:
  "(CoreV1_Nodes_Get kubeCl a wa = (Inl err, wa')
      \<longrightarrow> WaitForSingleNodeBecomeReady_attempt kubeCl a wa = (Some err, wa'))
   \<and> (CoreV1_Nodes_Get kubeCl b wb = (Inr node, wb')
      \<longrightarrow> WaitForSingleNodeBecomeReady_attempt kubeCl b wb
          = (if \<exists>c \<in> set (Conditions node). Type c = ''Ready'' \<and> Status c = ''True'' then None
             else Some (Errorf ''node %q is not Ready yet'' [b]), wb'))
   \<and> WaitForSingleNodeBecomeReady kubeCl n w
       = as_error (run (Sprintf ''Waiting for  Node %s to become Ready'' [n])
           \<lparr>maxAttempts = 100, intervalSeconds = 20, silent = False\<rparr>
           (as_result (WaitForSingleNodeBecomeReady_attempt kubeCl n)) w)"
  by (simp add: WaitForSingleNodeBecomeReady_attempt_def ready_condition_eq
      WaitForSingleNodeBecomeReady_def StartLoop_def)

theorem single_node_wait_attempt_witness:
  "CoreV1_Nodes_Get demo ''lost'' 0 = (Inl (StatusError ''NotFound'' ''node not found''), 1)
   \<and> WaitForSingleNodeBecomeReady_attempt demo ''lost'' 0
       = (Some (StatusError ''NotFound'' ''node not found''), 1)
   \<and> CoreV1_Nodes_Get demo ''b'' 0 = (Inr \<lparr>Name = ''b'', Conditions = demo_not_ready\<rparr>, 1)
   \<and> WaitForSingleNodeBecomeReady_attempt demo ''b'' 0
       = (Some (Errorf ''node %q is not Ready yet'' [''b'']), 1)"
proof -
  have lost: "CoreV1_Nodes_Get demo ''lost'' 0 = (Inl (StatusError ''NotFound'' ''node not found''), 1)"
    by (simp add: demo_def demo_nodes_def)
  have b: "CoreV1_Nodes_Get demo ''b'' 0 = (Inr \<lparr>Name = ''b'', Conditions = demo_not_ready\<rparr>, 1)"
    by (simp add: demo_def demo_nodes_def)
  from single_node_wait_attempt [of demo "''lost''" 0 "StatusError ''NotFound'' ''node not found''" 1
      "''b''" 0 "\<lparr>Name = ''b'', Conditions = demo_not_ready\<rparr>" 1 "''b''" 0] lost b
  show ?thesis
    by (simp add: demo_not_ready_def)
qed

subsection \<open>The retry executor\<close>

lemma invocation_Suc:
  "invocation attempt (Suc i) s = invocation attempt i (snd (attempt s))"
  by (simp add: invocation_def)

lemma run_loop_stops:
  assumes "k \<le> left"
    and "\<forall>i<k. isl (invocation attempt i s)"
    and "k = left \<or> \<not> isl (invocation attempt k s)"
  shows "run_loop left interval attempt done slept s =
    \<lparr>outcome = invocation attempt k s, invocations = Suc (done + k),
     sleeps = slept @ replicate k interval, final = state_after attempt (Suc k) s\<rparr>"
  using assms
proof (induction left arbitrary: k "done" slept s)
  case 0
  then show ?case
    by (simp add: invocation_def split: prod.split)
next
  case (Suc left)
  show ?case
  proof (cases k)
    case 0
    with Suc.prems have "\<not> isl (fst (attempt s))"
      by (simp add: invocation_def)
    with 0 show ?thesis
      by (auto simp: invocation_def split: prod.split sum.split)
  next
    case (Suc j)
    with Suc.prems have first: "isl (fst (attempt s))"
      by (auto simp: invocation_def)
    from Suc Suc.prems have "j \<le> left"
      and "\<forall>i<j. isl (invocation attempt i (snd (attempt s)))"
      and "j = left \<or> \<not> isl (invocation attempt j (snd (attempt s)))"
      by (auto simp: invocation_Suc)
    from Suc.IH [OF this, of "Suc done" "slept @ [interval]"] first Suc show ?thesis
      by (auto simp: invocation_Suc replicate_app_Cons_same split: prod.split sum.split)
  qed
qed

text \<open>
  C7. Under a policy with \<open>maxAttempts = m \<ge> 1\<close>, an attempt that fails on each of its
  first \<open>m\<close> invocations is invoked exactly \<open>m\<close> times and the executor returns what
  invocation \<open>m\<close> returned; an attempt that fails on its first \<open>k - 1\<close> invocations and
  succeeds on invocation \<open>k \<le> m\<close> is invoked exactly \<open>k\<close> times and the executor returns
  that success. Invocations are counted from zero in \<open>invocation\<close>.
\<close>

theorem run_invokes_until_success_or_budget:
  "(maxAttempts policy = m \<and> 1 \<le> m \<and> (\<forall>i<m. isl (invocation attempt i s))
     \<longrightarrow> run name policy attempt s =
          \<lparr>outcome = invocation attempt (m - 1) s, invocations = m,
           sleeps = replicate (m - 1) (intervalSeconds policy),
           final = state_after attempt m s\<rparr>)
   \<and> (maxAttempts policy' = m' \<and> 1 \<le> k \<and> k \<le> m'
        \<and> (\<forall>i<k - 1. isl (invocation attempt' i s')) \<and> \<not> isl (invocation attempt' (k - 1) s')
     \<longrightarrow> run name' policy' attempt' s' =
          \<lparr>outcome = invocation attempt' (k - 1) s', invocations = k,
           sleeps = replicate (k - 1) (intervalSeconds policy'),
           final = state_after attempt' k s'\<rparr>)"
proof (intro conjI impI)
  assume a: "maxAttempts policy = m \<and> 1 \<le> m \<and> (\<forall>i<m. isl (invocation attempt i s))"
  then have "m - 1 \<le> maxAttempts policy - 1" "\<forall>i<m - 1. isl (invocation attempt i s)"
    "m - 1 = maxAttempts policy - 1 \<or> \<not> isl (invocation attempt (m - 1) s)"
    by auto
  from run_loop_stops [OF this, of "intervalSeconds policy" 0 "[]"] a
  show "run name policy attempt s =
          \<lparr>outcome = invocation attempt (m - 1) s, invocations = m,
           sleeps = replicate (m - 1) (intervalSeconds policy),
           final = state_after attempt m s\<rparr>"
    by (simp add: run_def)
next
  assume a: "maxAttempts policy' = m' \<and> 1 \<le> k \<and> k \<le> m'
        \<and> (\<forall>i<k - 1. isl (invocation attempt' i s')) \<and> \<not> isl (invocation attempt' (k - 1) s')"
  then have "k - 1 \<le> maxAttempts policy' - 1" "\<forall>i<k - 1. isl (invocation attempt' i s')"
    "k - 1 = maxAttempts policy' - 1 \<or> \<not> isl (invocation attempt' (k - 1) s')"
    by auto
  from run_loop_stops [OF this, of "intervalSeconds policy'" 0 "[]"] a
  show "run name' policy' attempt' s' =
          \<lparr>outcome = invocation attempt' (k - 1) s', invocations = k,
           sleeps = replicate (k - 1) (intervalSeconds policy'),
           final = state_after attempt' k s'\<rparr>"
    by (simp add: run_def)
qed

lemma demo_failing_invocation: "invocation demo_failing i n = Inl (Suc (n + i))"
  by (induction i arbitrary: n) (simp_all add: invocation_def demo_failing_def)

lemma demo_failing_state: "state_after demo_failing i n = n + i"
  by (induction i arbitrary: n) (simp_all add: demo_failing_def)

lemma demo_third_state: "state_after demo_third i n = n + i"
  by (induction i arbitrary: n) (simp_all add: demo_third_def)

theorem run_invokes_until_success_or_budget_witness:
  "run (Literal ''always fails'') \<lparr>maxAttempts = 3, intervalSeconds = 0, silent = False\<rparr>
      demo_failing 0
     = \<lparr>outcome = Inl 3, invocations = 3, sleeps = [0, 0], final = 3\<rparr>
   \<and> run (Literal ''third time'') \<lparr>maxAttempts = 5, intervalSeconds = 7, silent = False\<rparr>
      demo_third 0
     = \<lparr>outcome = Inr ''done'', invocations = 3, sleeps = [7, 7], final = 3\<rparr>"
proof -
  have third: "invocation demo_third i 0 = (if i < 2 then Inl (Suc i) else Inr ''done'')" for i
    by (simp add: invocation_def demo_third_state demo_third_def)
  from run_invokes_until_success_or_budget [of
      "\<lparr>maxAttempts = 3, intervalSeconds = 0, silent = False\<rparr>" 3 demo_failing 0
      "Literal ''always fails''"
      "\<lparr>maxAttempts = 5, intervalSeconds = 7, silent = False\<rparr>" 5 3 demo_third 0
      "Literal ''third time''"]
  show ?thesis
    by (simp add: demo_failing_invocation demo_failing_state demo_third_state third
        numeral_2_eq_2)
qed

lemma run_first_success:
  "attempt s = (Inr v, s') \<Longrightarrow>
     run name policy attempt s = \<lparr>outcome = Inr v, invocations = 1, sleeps = [], final = s'\<rparr>"
  by (cases "maxAttempts policy - 1") (simp_all add: run_def)

lemma StartSilentLoop_first_success:
  "task s = (None, s') \<Longrightarrow> StartSilentLoop name attemptsQuantity waitSeconds task s = (None, s')"
  by (simp add: StartSilentLoop_def as_error_def as_result_def
      run_first_success [where v = "()" and s' = s'])

subsection \<open>The bootstrap cloud config\<close>

lemma EncodeToString_sample: "EncodeToString [0x4D, 0x61, 0x6E, 0x4D, 0x61] = ''TWFuTWE=''"
  by (simp add: encode6_def encodeStd_def)

text \<open>
  C10. When the bootstrap secret of the group exists and its data has no key
  "cloud-config", the attempt succeeds and the cloud config is the empty string, which is
  the base64 text of no bytes; the whole fetch then returns the empty string and no error.
\<close>

theorem cloud_config_without_key_is_empty:
  "CoreV1_Secrets_Get kubeCl ''d8-cloud-instance-manager'' (''manual-bootstrap-for-'' @ nodeGroupName) w
       = (Inr secret, w')
     \<and> Data secret ''cloud-config'' = None
   \<longrightarrow> GetCloudConfig_attempt kubeCl nodeGroupName (cloudData, w) = (None, ('''', w'))
       \<and> GetCloudConfig kubeCl nodeGroupName w = (('''', None), w')
       \<and> EncodeToString [] = ''''"
proof
  assume a: "CoreV1_Secrets_Get kubeCl ''d8-cloud-instance-manager''
       (''manual-bootstrap-for-'' @ nodeGroupName) w = (Inr secret, w')
     \<and> Data secret ''cloud-config'' = None"
  then have attempt: "GetCloudConfig_attempt kubeCl nodeGroupName (c, w) = (None, ('''', w'))" for c
    by (simp add: GetCloudConfig_attempt_def)
  from StartSilentLoop_first_success
    [where task = "GetCloudConfig_attempt kubeCl nodeGroupName" and s = "([], w)", OF attempt]
  have "GetCloudConfig kubeCl nodeGroupName w = (('''', None), w')"
    by (simp add: GetCloudConfig_def)
  with attempt show "GetCloudConfig_attempt kubeCl nodeGroupName (cloudData, w) = (None, ('''', w'))
       \<and> GetCloudConfig kubeCl nodeGroupName w = (('''', None), w')
       \<and> EncodeToString [] = ''''"
    by simp
qed

theorem cloud_config_without_key_is_empty_witness:
  "Data \<lparr>Data = Map.empty\<rparr> ''cloud-config'' = None
   \<and> CoreV1_Secrets_Get demo ''d8-cloud-instance-manager'' (''manual-bootstrap-for-'' @ ''worker'') 0
       = (Inr \<lparr>Data = Map.empty\<rparr>, 1)
   \<and> GetCloudConfig_attempt demo ''worker'' (''stale'', 0) = (None, ('''', 1))
   \<and> GetCloudConfig demo ''worker'' 0 = (('''', None), 1)"
proof -
  have got: "CoreV1_Secrets_Get demo ''d8-cloud-instance-manager''
      (''manual-bootstrap-for-'' @ ''worker'') 0 = (Inr \<lparr>Data = Map.empty\<rparr>, 1)"
    by (simp add: demo_def)
  with cloud_config_without_key_is_empty [of demo "''worker''" 0 "\<lparr>Data = Map.empty\<rparr>" 1 "''stale''"]
  show ?thesis
    by simp
qed

subsection \<open>Attempt policies\<close>

text \<open>
  C8. Each operation runs its closure under a fixed policy: the node-group upsert with 45
  attempts 15 seconds apart, the two deletes with 45 attempts 10 seconds apart, the
  listing of node templates with 10 attempts 5 seconds apart, and the three readiness
  waits with 100 attempts 20 seconds apart.
\<close>

theorem operations_run_under_their_policies:
  "CreateNodeGroup kubeCl MarshalJSON nodeGroupName data w
     = as_error (run (Sprintf ''Create NodeGroup %q'' [nodeGroupName])
         \<lparr>maxAttempts = 45, intervalSeconds = 15, silent = False\<rparr>
         (as_result (CreateNodeGroup_attempt kubeCl MarshalJSON \<lparr>Object = data\<rparr>)) w)
   \<and> DeleteNode kubeCl nodeName w
     = as_error (run (Sprintf ''Delete Node %s'' [nodeName])
         \<lparr>maxAttempts = 45, intervalSeconds = 10, silent = False\<rparr>
         (as_result (DeleteNode_attempt kubeCl nodeName)) w)
   \<and> DeleteNodeGroup kubeCl nodeGroupName w
     = as_error (run (Sprintf ''Delete NodeGroup %s'' [nodeGroupName])
         \<lparr>maxAttempts = 45, intervalSeconds = 10, silent = False\<rparr>
         (as_result (DeleteNodeGroup_attempt kubeCl nodeGroupName)) w)
   \<and> GetNodeGroupTemplates kubeCl w
     = (case as_error (run (Literal ''Get NodeGroups node template settings'')
           \<lparr>maxAttempts = 10, intervalSeconds = 5, silent = False\<rparr>
           (as_result (GetNodeGroupTemplates_attempt kubeCl)) (Map.empty, w)) of
          (err, (nodeTemplates, w')) \<Rightarrow> ((nodeTemplates, err), w'))
   \<and> WaitForSingleNodeBecomeReady kubeCl nodeName w
     = as_error (run (Sprintf ''Waiting for  Node %s to become Ready'' [nodeName])
         \<lparr>maxAttempts = 100, intervalSeconds = 20, silent = False\<rparr>
         (as_result (WaitForSingleNodeBecomeReady_attempt kubeCl nodeName)) w)
   \<and> WaitForNodesBecomeReady kubeCl nodeGroupName desiredReadyNodes w
     = as_error (run (Sprintf ''Waiting for NodeGroup %s to become Ready'' [nodeGroupName])
         \<lparr>maxAttempts = 100, intervalSeconds = 20, silent = False\<rparr>
         (as_result (WaitForNodesBecomeReady_attempt kubeCl nodeGroupName desiredReadyNodes)) w)
   \<and> WaitForNodesListBecomeReady kubeCl nodes w
     = as_error (run (Literal ''Waiting for nodes to become Ready'')
         \<lparr>maxAttempts = 100, intervalSeconds = 20, silent = False\<rparr>
         (as_result (WaitForNodesListBecomeReady_attempt kubeCl nodes)) w)"
  by (simp add: CreateNodeGroup_def DeleteNode_def DeleteNodeGroup_def GetNodeGroupTemplates_def
      WaitForSingleNodeBecomeReady_def WaitForNodesBecomeReady_def WaitForNodesListBecomeReady_def
      StartLoop_def)

subsection \<open>Waiting for a list of named nodes\<close>


lemma fetch_nodes_items:
  "fetch_nodes kubeCl nodes acc w = (Inr items, w') \<Longrightarrow>
   \<exists>new. items = acc @ new
     \<and> list_all2 (\<lambda>nodeName item. \<exists>va vb. CoreV1_Nodes_Get kubeCl nodeName va = (Inr item, vb))
          nodes new"
proof (induction nodes arbitrary: acc w)
  case Nil
  then show ?case by simp
next
  case (Cons nodeName rest)
  then obtain node w1 where got: "CoreV1_Nodes_Get kubeCl nodeName w = (Inr node, w1)"
    and rest: "fetch_nodes kubeCl rest (acc @ [node]) w1 = (Inr items, w')"
    by (auto split: prod.splits sum.splits)
  from Cons.IH [OF rest] obtain new where "items = (acc @ [node]) @ new"
    and "list_all2 (\<lambda>nodeName item. \<exists>va vb. CoreV1_Nodes_Get kubeCl nodeName va = (Inr item, vb))
          rest new"
    by blast
  with got have "items = acc @ (node # new)
    \<and> list_all2 (\<lambda>nodeName item. \<exists>va vb. CoreV1_Nodes_Get kubeCl nodeName va = (Inr item, vb))
          (nodeName # rest) (node # new)"
    by auto
  then show ?case by blast
qed

lemma fetch_nodes_fetched:
  "fetch_nodes kubeCl nodes [] w = (Inr items, w') \<Longrightarrow>
   list_all2 (\<lambda>nodeName item. \<exists>va vb. CoreV1_Nodes_Get kubeCl nodeName va = (Inr item, vb))
     nodes items"
  using fetch_nodes_items [of kubeCl nodes "[]" w items w'] by simp




lemma node_lines_ends_with_newline:
  "msg \<noteq> [] \<Longrightarrow> last msg = CHR 0x0A \<Longrightarrow>
   node_lines items ready msg \<noteq> [] \<and> last (node_lines items ready msg) = CHR 0x0A"
  by (induction items arbitrary: msg) simp_all

lemma message_ends_with_newline:
  "message items desired \<noteq> [] \<and> last (message items desired) = CHR 0x0A"
  unfolding message_def by (rule node_lines_ends_with_newline) simp_all

lemma TrimSuffix_newline:
  "s \<noteq> [] \<Longrightarrow> last s = CHR 0x0A \<Longrightarrow> TrimSuffix s ''\<newline>'' = butlast s"
  by (cases s rule: rev_cases) (simp_all add: TrimSuffix_def)

lemma TrimSuffix_message:
  "TrimSuffix (message items desired) ''\<newline>'' = butlast (message items desired)"
  using message_ends_with_newline [of items desired] by (simp add: TrimSuffix_newline)

lemma readiness_eq:
  "readiness items desired =
     (if desired \<le> int (card (readyNodes items)) then None
      else Some (Errorf (butlast (message items desired)) []))"
  by (simp add: readiness_def TrimSuffix_message)





subsection \<open>A name listed twice\<close>

lemma fetch_nodes_names:
  assumes "\<forall>nodeName va node vb.
      CoreV1_Nodes_Get kubeCl nodeName va = (Inr node, vb) \<longrightarrow> Name node = nodeName"
    and "fetch_nodes kubeCl nodes [] w = (Inr items, w')"
  shows "map Name items = nodes"
proof -
  from fetch_nodes_fetched [OF assms(2)] assms(1)
  have "list_all2 (\<lambda>nodeName item. Name item = nodeName) nodes items"
    by (auto elim!: list_all2_mono)
  then show ?thesis
    by (induction rule: list_all2_induct) simp_all
qed

lemma readyNodes_subset_names: "readyNodes items \<subseteq> set (map Name items)"
  by (auto simp: readyNodes_eq)

lemma repeated_name_card: "\<not> distinct nodes \<Longrightarrow> card (set nodes) < length nodes"
  using card_length [of nodes] card_distinct [of nodes] by (cases "card (set nodes) = length nodes") auto

text \<open>
  C9. Take a client whose fetch returns the node it was asked for by name, and a list in
  which some name occurs twice. Then the ready count is at most the number of distinct
  names, which is below the length of the list, so the attempt fails whatever the
  cluster holds: with a failed fetch if there is one, with the summary otherwise. The
  list n, n with n Ready yields "Nodes Ready 1 of 2".
\<close>

theorem repeated_name_never_satisfied:
  "(\<forall>nodeName va node vb.
       CoreV1_Nodes_Get kubeCl nodeName va = (Inr node, vb) \<longrightarrow> Name node = nodeName)
     \<and> \<not> distinct nodes
   \<longrightarrow> fst (WaitForNodesListBecomeReady_attempt kubeCl nodes w) \<noteq> None
     \<and> (\<forall>items w'. fetch_nodes kubeCl nodes [] w = (Inr items, w')
          \<longrightarrow> card (readyNodes items) \<le> card (set nodes)
            \<and> card (set nodes) < length nodes
            \<and> WaitForNodesListBecomeReady_attempt kubeCl nodes w
                = (Some (Errorf (butlast (message items (int (length nodes)))) []), w'))"
proof
  assume a: "(\<forall>nodeName va node vb.
       CoreV1_Nodes_Get kubeCl nodeName va = (Inr node, vb) \<longrightarrow> Name node = nodeName)
     \<and> \<not> distinct nodes"
  then have short: "card (set nodes) < length nodes"
    by (simp add: repeated_name_card)
  have fetched: "card (readyNodes items) \<le> card (set nodes)
      \<and> WaitForNodesListBecomeReady_attempt kubeCl nodes w
          = (Some (Errorf (butlast (message items (int (length nodes)))) []), w')"
    if f: "fetch_nodes kubeCl nodes [] w = (Inr items, w')" for items w'
  proof -
    from a f have "map Name items = nodes"
      by (intro fetch_nodes_names) auto
    with readyNodes_subset_names [of items] have "card (readyNodes items) \<le> card (set nodes)"
      by (auto intro: card_mono)
    with short f show ?thesis
      by (simp add: WaitForNodesListBecomeReady_attempt_def readiness_eq)
  qed
  have "fst (WaitForNodesListBecomeReady_attempt kubeCl nodes w) \<noteq> None"
  proof (cases "fetch_nodes kubeCl nodes [] w")
    case (Pair r w')
    show ?thesis
    proof (cases r)
      case (Inl err)
      with Pair show ?thesis
        by (simp add: WaitForNodesListBecomeReady_attempt_def)
    next
      case (Inr items)
      with Pair fetched [of items w'] show ?thesis
        by simp
    qed
  qed
  with short fetched
  show "fst (WaitForNodesListBecomeReady_attempt kubeCl nodes w) \<noteq> None
     \<and> (\<forall>items w'. fetch_nodes kubeCl nodes [] w = (Inr items, w')
          \<longrightarrow> card (readyNodes items) \<le> card (set nodes)
            \<and> card (set nodes) < length nodes
            \<and> WaitForNodesListBecomeReady_attempt kubeCl nodes w
                = (Some (Errorf (butlast (message items (int (length nodes)))) []), w'))"
    by blast
qed

theorem repeated_name_never_satisfied_witness:
  "\<not> distinct [''n'', ''n'']
   \<and> fetch_nodes demo [''n'', ''n''] [] 0
       = (Inr [\<lparr>Name = ''n'', Conditions = demo_ready\<rparr>,
               \<lparr>Name = ''n'', Conditions = demo_ready\<rparr>], 2)
   \<and> ready_condition demo_ready
   \<and> fst (WaitForNodesListBecomeReady_attempt demo [''n'', ''n''] 0) \<noteq> None
   \<and> WaitForNodesListBecomeReady_attempt demo [''n'', ''n''] 0
       = (Some (Errorf ''Nodes Ready 1 of 2\<newline>* n | Ready\<newline>* n | Ready'' []), 2)"
proof -
  let ?n = "\<lparr>Name = ''n'', Conditions = demo_ready\<rparr>"
  have named: "\<forall>nodeName va node vb.
      CoreV1_Nodes_Get demo nodeName va = (Inr node, vb) \<longrightarrow> Name node = nodeName"
    by (auto simp: demo_def split: option.splits)
  have twice: "\<not> distinct [''n'', ''n'']"
    by simp
  have both: "fetch_nodes demo [''n'', ''n''] [] 0 = (Inr [?n, ?n], 2)"
    by (simp add: demo_def demo_nodes_def)
  have ready: "readyNodes [?n, ?n] = {''n''}"
    by (simp add: readyNodes_def demo_ready_def NodeReady_def ConditionTrue_def)
  have summary: "message [?n, ?n] 2 = ''Nodes Ready 1 of 2\<newline>* n | Ready\<newline>* n | Ready\<newline>''"
    by (simp add: message_def ready fmt_int_def fmt_nat.simps digit_def)
  have is_ready: "ready_condition demo_ready"
    by (simp add: demo_ready_def NodeReady_def ConditionTrue_def)
  from repeated_name_never_satisfied [of demo "[''n'', ''n'']" 0] named twice
  have never: "fst (WaitForNodesListBecomeReady_attempt demo [''n'', ''n''] 0) \<noteq> None"
    and fetched: "\<forall>items w'. fetch_nodes demo [''n'', ''n''] [] 0 = (Inr items, w')
          \<longrightarrow> card (readyNodes items) \<le> card (set [''n'', ''n''])
            \<and> card (set [''n'', ''n'']) < length [''n'', ''n'']
            \<and> WaitForNodesListBecomeReady_attempt demo [''n'', ''n''] 0
                = (Some (Errorf (butlast (message items (int (length [''n'', ''n''])))) []), w')"
    by blast+
  from fetched both
  have "WaitForNodesListBecomeReady_attempt demo [''n'', ''n''] 0
      = (Some (Errorf (butlast (message [?n, ?n] (int (length [''n'', ''n''])))) []), 2)"
    by blast
  then have "WaitForNodesListBecomeReady_attempt demo [''n'', ''n''] 0
      = (Some (Errorf ''Nodes Ready 1 of 2\<newline>* n | Ready\<newline>* n | Ready'' []), 2)"
    by (simp add: summary)
  with twice both is_ready never show ?thesis
    by blast
qed

end
